theory Spec2Isabelle
  imports Complex_Main "HOL-Library.Multiset"
begin

section \<open>Data of the quiz client (frontend/app.js)\<close>

text \<open>
  A question of the catalog: \<open>id\<close>, \<open>question\<close> (the prompt) and \<open>options\<close>.
  Identifiers are the integers of the catalog file.
\<close>

record question =
  qid :: int
  qtext :: string
  qoptions :: "string list"

text \<open>
  The three labels \<open>getTopicName\<close> returns. The source returns three fixed string literals
  (an emoji followed by the topic's name); each constructor stands for one of them.
\<close>

datatype topic = Statistics | Probability | MachineLearning

text \<open>
  \<^verbatim>\<open>
  function getTopicName(id) {
      if (id <= 3) return <statistics label>;
      if (id <= 6) return <probability label>;
      return <machine learning label>;
  }
  \<close>
\<close>

definition getTopicName :: "int \<Rightarrow> topic" where
  "getTopicName i =
     (if i \<le> 3 then Statistics
      else if i \<le> 6 then Probability
      else MachineLearning)"

subsection \<open>The shuffle\<close>

text \<open>
  \<open>Math.random()\<close> returns a number \<open>r\<close> with \<open>0 \<le> r < 1\<close>; the source turns it into an
  index with \<open>Math.floor(r * (i + 1))\<close>. The product is taken here as the exact real
  number. The source computes it in double precision, where it is rounded to the nearest
  double: when the exact product lies within half a unit in the last place below an
  integer the two floors differ by one. Both stay within \<open>0..i\<close>, and every index of
  \<open>0..i\<close> is the value of some draw \<open>r\<close> in both.
\<close>

definition randomIndex :: "real \<Rightarrow> nat \<Rightarrow> nat" where
  "randomIndex r i = nat \<lfloor>r * real (i + 1)\<rfloor>"

text \<open>
  The destructuring assignment \<open>[a[i], a[j]] = [a[j], a[i]]\<close> reads both elements first,
  then writes position \<open>i\<close>, then position \<open>j\<close>.
\<close>

definition swap :: "'a list \<Rightarrow> nat \<Rightarrow> nat \<Rightarrow> 'a list" where
  "swap xs i j = xs[i := xs ! j, j := xs ! i]"

text \<open>
  The loop \<open>for (let i = newArray.length - 1; i > 0; i--)\<close>. The argument \<open>rnd i\<close> is the
  value \<open>Math.random()\<close> returns in the iteration with loop index \<open>i\<close>. \<open>shuffle_loop i\<close>
  runs the iterations \<open>i, i - 1, ..., 1\<close>.
\<close>

fun shuffle_loop :: "nat \<Rightarrow> (nat \<Rightarrow> real) \<Rightarrow> 'a list \<Rightarrow> 'a list" where
  "shuffle_loop 0 rnd xs = xs"
| "shuffle_loop (Suc i) rnd xs =
     shuffle_loop i rnd (swap xs (Suc i) (randomIndex (rnd (Suc i)) (Suc i)))"

text \<open>
  \<open>shuffleArray\<close> copies its argument and runs the loop from \<open>length - 1\<close>. On the empty
  array the source starts at \<open>-1\<close> and runs no iteration; so does \<open>shuffle_loop 0\<close>.
\<close>

definition shuffleArray :: "'a list \<Rightarrow> (nat \<Rightarrow> real) \<Rightarrow> 'a list" where
  "shuffleArray array rnd = shuffle_loop (length array - 1) rnd array"

section \<open>State of the quiz client\<close>

datatype screen = LoadingScreen | WelcomeScreen | QuizScreen | FinalScreen | ErrorScreen

text \<open>
  The two fixed texts written to \<open>error-message\<close>: the one of \<open>init\<close> (the test was
  already taken, no second attempt) and the one of \<open>startQuiz\<close> (the questions could not
  be loaded). Each constructor stands for the string literal of the source.
\<close>

datatype error_message = AlreadyCompletedMessage | CouldNotLoadMessage

text \<open>
  The user the hosting platform supplies in \<open>tg.initDataUnsafe.user\<close>, when it supplies
  one; \<open>username\<close> may be missing.
\<close>

record tg_user =
  tg_id :: int
  tg_username :: "string option"

text \<open>
  A user identifier is the platform's number, or the string \<open>'test_user_' + Math.random()\<close>,
  modelled by the number drawn (printing a number is injective).
\<close>

datatype user_id = PlatformId int | GuestId real

text \<open>
  \<open>tg.initDataUnsafe?.user?.id || 'test_user_' + Math.random()\<close>: a missing user and the
  identifier \<open>0\<close> are falsy.
\<close>

definition getUserId :: "tg_user option \<Rightarrow> real \<Rightarrow> user_id" where
  "getUserId tg r =
     (case tg of
        None \<Rightarrow> GuestId r
      | Some u \<Rightarrow> if tg_id u = 0 then GuestId r else PlatformId (tg_id u))"

text \<open>
  \<open>tg.initDataUnsafe?.user?.username || 'Anonymous'\<close>: a missing name and the empty
  name are falsy.
\<close>

definition getUsername :: "tg_user option \<Rightarrow> string" where
  "getUsername tg =
     (case tg of
        None \<Rightarrow> ''Anonymous''
      | Some u \<Rightarrow>
          (case tg_username u of
             None \<Rightarrow> ''Anonymous''
           | Some n \<Rightarrow> if n = [] then ''Anonymous'' else n))"

text \<open>The body of \<open>POST /submit\<close>.\<close>

record result =
  telegram_user_id :: user_id
  username :: string
  answers :: "nat list"
  time_spent :: int
  questions :: "int list"

text \<open>The answer of \<open>GET /questions\<close>.\<close>

record catalog =
  statistics :: "question list"
  probability :: "question list"
  ml :: "question list"

definition QUIZ_TIME :: int where
  "QUIZ_TIME = 15 * 60"

text \<open>
  The module-level variables of app.js, the part of the page the properties below speak of, and
  the environment the handlers act on:
  \<^item> \<open>currentQuestionIndex\<close>, \<open>allQuestions\<close>, \<open>userAnswers\<close>, \<open>startTime\<close> (\<open>None\<close> is
    \<open>null\<close>), \<open>timerInterval\<close> (the handle \<open>setInterval\<close> returned; \<open>None\<close> is \<open>null\<close>),
    \<open>timeRemaining\<close>: the variables of the source;
  \<^item> \<open>activeScreen\<close>: the screen carrying the class \<open>active\<close>; \<open>errorMessage\<close>: the text
    of \<open>error-message\<close>; \<open>shownQuestion\<close>, \<open>currentTopic\<close>: the question whose text and
    option buttons \<open>displayQuestion\<close> rendered, and its topic label; \<open>questionsAnswered\<close>,
    \<open>timeSpentShown\<close>: the two counters of the final screen (answered/total, minutes and
    seconds);
  \<^item> \<open>liveTimers\<close>: the handles of the intervals that are running; \<open>nextHandle\<close>: the next
    handle \<open>setInterval\<close> returns;
  \<^item> \<open>userChecks\<close>, \<open>questionFetches\<close>, \<open>posted\<close>: the requests sent so far to
    \<open>/check-user\<close> (their identifiers), to \<open>/questions\<close> (their number) and to \<open>/submit\<close>
    (their bodies);
  \<^item> \<open>pendingStarts\<close>: the calls of \<open>startQuiz\<close> waiting for their answer;
    \<open>pendingFinishes\<close>: the calls of \<open>finishQuiz\<close> waiting for theirs, each with its
    \<open>timeSpent\<close>.
  The progress bar, the question counter, the timer text and the motivation caption are
  written by the source and read by nothing; they are left out.
\<close>

record client =
  currentQuestionIndex :: nat
  allQuestions :: "question list"
  userAnswers :: "nat list"
  startTime :: "int option"
  timerInterval :: "nat option"
  timeRemaining :: int
  activeScreen :: screen
  errorMessage :: "error_message option"
  shownQuestion :: "question option"
  currentTopic :: "topic option"
  questionsAnswered :: "(nat \<times> nat) option"
  timeSpentShown :: "(int \<times> int) option"
  liveTimers :: "nat list"
  nextHandle :: nat
  userChecks :: "user_id list"
  questionFetches :: nat
  posted :: "result list"
  pendingStarts :: nat
  pendingFinishes :: "int list"

text \<open>
  The state when the script has been loaded: the initial values of the variables, the
  loading screen shown, nothing requested and no timer set.
\<close>

definition client0 :: client where
  "client0 =
     \<lparr>currentQuestionIndex = 0, allQuestions = [], userAnswers = [], startTime = None,
      timerInterval = None, timeRemaining = QUIZ_TIME, activeScreen = LoadingScreen,
      errorMessage = None, shownQuestion = None, currentTopic = None,
      questionsAnswered = None, timeSpentShown = None, liveTimers = [], nextHandle = 1,
      userChecks = [], questionFetches = 0, posted = [], pendingStarts = 0,
      pendingFinishes = []\<rparr>"

section \<open>The functions of the quiz client\<close>

definition showScreen :: "screen \<Rightarrow> client \<Rightarrow> client" where
  "showScreen screenName s = s\<lparr>activeScreen := screenName\<rparr>"

text \<open>
  \<open>clearInterval\<close>; clearing \<open>null\<close> or a handle that is not running does nothing.
\<close>

definition clearInterval :: "nat option \<Rightarrow> client \<Rightarrow> client" where
  "clearInterval h s =
     (case h of
        None \<Rightarrow> s
      | Some k \<Rightarrow> s\<lparr>liveTimers := removeAll k (liveTimers s)\<rparr>)"

text \<open>
  \<open>startTimer\<close>: \<open>timerInterval = setInterval(..., 1000)\<close>. The new interval gets a
  handle no other interval has; the variable is overwritten.
\<close>

definition startTimer :: "client \<Rightarrow> client" where
  "startTimer s =
     s\<lparr>liveTimers := liveTimers s @ [nextHandle s],
       timerInterval := Some (nextHandle s),
       nextHandle := nextHandle s + 1\<rparr>"

text \<open>
  \<open>displayQuestion\<close> reads \<open>allQuestions[currentQuestionIndex]\<close>. Out of range the value is
  \<open>undefined\<close> and \<open>question.id\<close> throws a TypeError before the topic, the text or the
  options are written: the result \<open>None\<close>.
\<close>

definition displayQuestion :: "client \<Rightarrow> client option" where
  "displayQuestion s =
     (if currentQuestionIndex s < length (allQuestions s)
      then let question = allQuestions s ! currentQuestionIndex s
           in Some (s\<lparr>currentTopic := Some (getTopicName (qid question)),
                      shownQuestion := Some question\<rparr>)
      else None)"

text \<open>
  \<open>finishQuiz\<close> up to its \<open>await\<close>: the timer is cleared, the elapsed seconds are
  \<open>Math.floor((Date.now() - startTime) / 1000)\<close> (\<open>null\<close> counts as 0 in the subtraction),
  and the request is sent. \<open>now\<close> is the value of \<open>Date.now()\<close>, \<open>r\<close> the value
  \<open>Math.random()\<close> returns when the identifier needs it.
\<close>

definition finishQuiz :: "tg_user option \<Rightarrow> int \<Rightarrow> real \<Rightarrow> client \<Rightarrow> client" where
  "finishQuiz tg now r s =
     (let s1 = clearInterval (timerInterval s) s;
          timeSpent = (now - (case startTime s1 of None \<Rightarrow> 0 | Some t \<Rightarrow> t)) div 1000;
          body = \<lparr>telegram_user_id = getUserId tg r,
                  username = getUsername tg,
                  answers = userAnswers s1,
                  time_spent = timeSpent,
                  questions = map qid (allQuestions s1)\<rparr>
      in s1\<lparr>posted := posted s1 @ [body],
            pendingFinishes := pendingFinishes s1 @ [timeSpent]\<rparr>)"

text \<open>
  The operator \<open>%\<close> of JavaScript on integers, for a divisor that is not zero: the
  remainder of the division that truncates towards zero; it has the sign of the dividend.
\<close>

definition js_rem :: "int \<Rightarrow> int \<Rightarrow> int" where
  "js_rem a b = (if a < 0 then - ((- a) mod \<bar>b\<bar>) else a mod \<bar>b\<bar>)"

text \<open>
  \<open>finishQuiz\<close> after its \<open>await\<close>, whether the request succeeded or failed: the final
  screen with its two counters, read from the variables at that moment. The minutes are
  \<open>Math.floor(timeSpent / 60)\<close>, the seconds \<open>timeSpent % 60\<close>.
\<close>

definition finishQuiz_settled :: "int \<Rightarrow> client \<Rightarrow> client" where
  "finishQuiz_settled timeSpent s =
     (showScreen FinalScreen s)
       \<lparr>questionsAnswered := Some (length (userAnswers s), length (allQuestions s)),
        timeSpentShown := Some (timeSpent div 60, js_rem timeSpent 60)\<rparr>"

text \<open>
  \<^verbatim>\<open>
  function selectAnswer(answerIndex) {
      userAnswers.push(answerIndex);
      currentQuestionIndex++;
      if (currentQuestionIndex < allQuestions.length) { displayQuestion(); }
      else { finishQuiz(); }
  }
  \<close>
  In the first branch the index is in range and \<open>displayQuestion\<close> does not throw.
\<close>

definition selectAnswer :: "tg_user option \<Rightarrow> nat \<Rightarrow> int \<Rightarrow> real \<Rightarrow> client \<Rightarrow> client" where
  "selectAnswer tg answerIndex now r s =
     (let s1 = s\<lparr>userAnswers := userAnswers s @ [answerIndex],
                 currentQuestionIndex := currentQuestionIndex s + 1\<rparr>
      in if currentQuestionIndex s1 < length (allQuestions s1)
         then (case displayQuestion s1 of Some s2 \<Rightarrow> s2 | None \<Rightarrow> s1)
         else finishQuiz tg now r s1)"

text \<open>
  The callback \<open>startTimer\<close> gives to \<open>setInterval\<close>: one second less, and at zero or
  below \<open>clearInterval(timerInterval)\<close> and \<open>finishQuiz()\<close>.
\<close>

definition tick :: "tg_user option \<Rightarrow> int \<Rightarrow> real \<Rightarrow> client \<Rightarrow> client" where
  "tick tg now r s =
     (let s1 = s\<lparr>timeRemaining := timeRemaining s - 1\<rparr>
      in if timeRemaining s1 \<le> 0
         then finishQuiz tg now r (clearInterval (timerInterval s1) s1)
         else s1)"

text \<open>
  \<open>startQuiz\<close> up to its \<open>await\<close>: the request for the catalog is sent.
\<close>

definition startQuiz_request :: "client \<Rightarrow> client" where
  "startQuiz_request s =
     s\<lparr>questionFetches := questionFetches s + 1, pendingStarts := pendingStarts s + 1\<rparr>"

text \<open>The \<open>catch\<close> block of \<open>startQuiz\<close>.\<close>

definition startQuiz_catch :: "client \<Rightarrow> client" where
  "startQuiz_catch s = (showScreen ErrorScreen s)\<lparr>errorMessage := Some CouldNotLoadMessage\<rparr>"

text \<open>
  \<open>startQuiz\<close> after its \<open>await\<close>. \<open>response\<close> is \<open>None\<close> when \<open>fetch\<close> or
  \<open>response.json()\<close> rejects, or the answer lacks one of the three pools (spreading
  \<open>undefined\<close> throws): the \<open>catch\<close> block runs with nothing assigned. Otherwise the
  three pools are concatenated and shuffled, the start time, the index and the answers
  are assigned, the quiz screen is shown, the timer is started and the first question
  displayed; when \<open>displayQuestion\<close> throws (an empty catalog) the \<open>catch\<close> block runs
  after all of that.
\<close>

definition startQuiz_settled :: "catalog option \<Rightarrow> (nat \<Rightarrow> real) \<Rightarrow> int \<Rightarrow> client \<Rightarrow> client" where
  "startQuiz_settled response rnd now s =
     (case response of
        None \<Rightarrow> startQuiz_catch s
      | Some data \<Rightarrow>
          (let s1 = s\<lparr>allQuestions :=
                        shuffleArray (statistics data @ probability data @ ml data) rnd,
                      startTime := Some now,
                      currentQuestionIndex := 0,
                      userAnswers := []\<rparr>;
               s2 = startTimer (showScreen QuizScreen s1)
           in case displayQuestion s2 of
                Some s3 \<Rightarrow> s3
              | None \<Rightarrow> startQuiz_catch s2))"

text \<open>
  The answer of the pre-check as \<open>init\<close> sees it: the request or its decoding failed
  (the \<open>catch\<close> block), or \<open>data.completed\<close> was truthy or falsy.
\<close>

datatype check_response = CheckFailed | CheckData bool

text \<open>
  \<open>init\<close>, from the end of its \<open>sleep\<close>: the identifier is computed, the pre-check is
  requested, and either the error screen with its message is shown (and \<open>init\<close>
  returns) or the welcome screen is.
\<close>

definition init :: "tg_user option \<Rightarrow> real \<Rightarrow> check_response \<Rightarrow> client \<Rightarrow> client" where
  "init tg r response s =
     (let userId = getUserId tg r;
          s1 = s\<lparr>userChecks := userChecks s @ [userId]\<rparr>
      in case response of
           CheckData True \<Rightarrow>
             (showScreen ErrorScreen s1)\<lparr>errorMessage := Some AlreadyCompletedMessage\<rparr>
         | _ \<Rightarrow> showScreen WelcomeScreen s1)"

section \<open>The event loop\<close>

text \<open>
  What can happen once \<open>init\<close> has run. Each event is one job of the single-threaded
  event loop and runs to its end (or to its \<open>await\<close>) before the next one starts:
  \<^item> \<open>ClickStart\<close>: a click on \<open>start-btn\<close>, a button of the welcome screen;
  \<^item> \<open>QuestionsSettled response rnd now\<close>: the answer to one pending request for the
    catalog arrives, with the random numbers and the clock value the continuation reads;
  \<^item> \<open>TimerFires h now r\<close>: the interval with handle \<open>h\<close> fires;
  \<^item> \<open>ClickOption i now r\<close>: a click on option button \<open>i\<close> of the displayed question, a
    button of the quiz screen;
  \<^item> \<open>SubmitSettled\<close>: the oldest pending \<open>/submit\<close> request succeeds or fails.
  A button can be clicked while its screen is the active one; an interval fires while it is
  running. \<open>step\<close> returns \<open>None\<close> for an event that cannot happen in the state. Closing
  the application ends the run and is not an event. The markup and the style sheet of
  the page are not among the sources: that only the screen with the class \<open>active\<close> is
  shown, and that the loading screen is the one shown first, is taken from the names the
  script uses.
\<close>

datatype event =
    ClickStart
  | QuestionsSettled "catalog option" "nat \<Rightarrow> real" int
  | TimerFires nat int real
  | ClickOption nat int real
  | SubmitSettled

fun step :: "tg_user option \<Rightarrow> event \<Rightarrow> client \<Rightarrow> client option" where
  "step tg ClickStart s =
     (if activeScreen s = WelcomeScreen then Some (startQuiz_request s) else None)"
| "step tg (QuestionsSettled response rnd now) s =
     (if 0 < pendingStarts s
      then Some (startQuiz_settled response rnd now (s\<lparr>pendingStarts := pendingStarts s - 1\<rparr>))
      else None)"
| "step tg (TimerFires h now r) s =
     (if h \<in> set (liveTimers s) then Some (tick tg now r s) else None)"
| "step tg (ClickOption i now r) s =
     (case shownQuestion s of
        None \<Rightarrow> None
      | Some q \<Rightarrow>
          if activeScreen s = QuizScreen \<and> i < length (qoptions q)
          then Some (selectAnswer tg i now r s)
          else None)"
| "step tg SubmitSettled s =
     (case pendingFinishes s of
        [] \<Rightarrow> None
      | timeSpent # rest \<Rightarrow> Some (finishQuiz_settled timeSpent (s\<lparr>pendingFinishes := rest\<rparr>)))"

fun run :: "tg_user option \<Rightarrow> event list \<Rightarrow> client \<Rightarrow> client option" where
  "run tg [] s = Some s"
| "run tg (e # es) s = (case step tg e s of None \<Rightarrow> None | Some s' \<Rightarrow> run tg es s')"

section \<open>The servers (unnamed/part_000 and backend/server.js)\<close>

datatype http_method = GET | HEAD | POST | OPTIONS | OtherMethod

text \<open>A request: its method, the path of its URL and its body.\<close>

record request =
  req_method :: http_method
  req_path :: string
  req_body :: string

text \<open>What \<open>express.static\<close> finds at a path: a file with its content, or a directory.\<close>

datatype entry = FileEntry string | DirEntry

text \<open>
  The files the servers read: what lies below \<open>frontend\<close> at a path (\<open>None\<close> when nothing
  does; a directory is found with and without a trailing slash, the directory \<open>frontend\<close>
  itself at the empty path and at \<open>/\<close>), and the text of \<open>questions.json\<close> and of
  \<open>users_results.json\<close> (\<open>None\<close> when \<open>fs.readFile\<close> reports an error).
\<close>

record disk =
  frontendFiles :: "string \<Rightarrow> entry option"
  questionsFile :: "string option"
  resultsFile :: "string option"

text \<open>
  What a request gets: a static file; the 301 redirection \<open>express.static\<close> sends for a
  directory asked for without its trailing slash; \<open>res.json\<close> of a value; the fixed body
  \<open>{ questions: [] }\<close> of backend/server.js; \<open>res.status(500).json({ error: ... })\<close>;
  the answer 200 with \<open>Allow: GET, HEAD\<close> Express gives to OPTIONS at the path of a
  route; the 404 answer Express gives when no middleware and no route take the request;
  or no answer, when the handler throws outside any \<open>try\<close>.
\<close>

datatype 'j response =
    StaticFile string
  | Redirect string
  | Json 'j
  | QuestionsStub
  | ErrorJson nat string
  | Allowed
  | NotFound
  | Uncaught

text \<open>
  Express compares paths without regard to letter case and accepts one trailing slash
  (its defaults, which neither server changes).
\<close>

definition lower_char :: "char \<Rightarrow> char" where
  "lower_char c =
     (case map_of (zip ''ABCDEFGHIJKLMNOPQRSTUVWXYZ'' ''abcdefghijklmnopqrstuvwxyz'') c of
        None \<Rightarrow> c
      | Some l \<Rightarrow> l)"

definition route_matches :: "string \<Rightarrow> string \<Rightarrow> bool" where
  "route_matches route path =
     (let p = map lower_char path in p = route \<or> p = route @ ''/'')"

text \<open>
  \<open>app.use(mount, ...)\<close>: the middleware sees the requests whose path starts with the
  mount path, up to the end or a slash, with that prefix removed. The mount path \<open>/\<close>
  of part_000 is the empty prefix.
\<close>

definition mounted_path :: "string \<Rightarrow> string \<Rightarrow> string option" where
  "mounted_path mount path =
     (let n = length mount
      in if map lower_char (take n path) = mount
            \<and> (length path = n \<or> path ! n = CHR ''/'')
         then Some (drop n path)
         else None)"

text \<open>\<open>app.get\<close> registers its handler for GET; Express sends HEAD to it as well.\<close>

definition is_get :: "request \<Rightarrow> bool" where
  "is_get rq = (req_method rq = GET \<or> req_method rq = HEAD)"

text \<open>
  \<open>express.static\<close> answers GET and HEAD and passes every other request on. A file is
  sent. A directory asked for with its trailing slash gives its \<open>index.html\<close>, when that
  is a file; asked for without, a redirection to the path with the slash. Anything else
  is passed on.
\<close>

definition serve_static :: "disk \<Rightarrow> string \<Rightarrow> request \<Rightarrow> 'j response option" where
  "serve_static d mount rq =
     (if is_get rq
      then (case mounted_path mount (req_path rq) of
              None \<Rightarrow> None
            | Some p \<Rightarrow>
                (case frontendFiles d p of
                   None \<Rightarrow> None
                 | Some (FileEntry file) \<Rightarrow> Some (StaticFile file)
                 | Some DirEntry \<Rightarrow>
                     if req_path rq \<noteq> [] \<and> last (req_path rq) = CHR ''/''
                     then (case frontendFiles d (p @ ''index.html'') of
                             Some (FileEntry file) \<Rightarrow> Some (StaticFile file)
                           | _ \<Rightarrow> None)
                     else Some (Redirect (req_path rq @ ''/''))))
      else None)"

text \<open>
  The callback both data routes of part_000 give to \<open>fs.readFile\<close>: on an error status
  500 with a message, otherwise \<open>res.json(JSON.parse(data))\<close>. \<open>parse\<close> is \<open>JSON.parse\<close>,
  \<open>None\<close> when it throws.
\<close>

definition send_file_json :: "(string \<Rightarrow> 'j option) \<Rightarrow> string option \<Rightarrow> string \<Rightarrow> 'j response" where
  "send_file_json parse file message =
     (case file of
        None \<Rightarrow> ErrorJson 500 message
      | Some data_text \<Rightarrow>
          (case parse data_text of
             None \<Rightarrow> Uncaught
           | Some v \<Rightarrow> Json v))"

text \<open>
  A route registered with \<open>app.get(route, handler)\<close>: at a path that matches, GET and HEAD
  get the handler's answer and OPTIONS gets the list of the route's methods; any other
  method, and any other path, is passed on.
\<close>

definition get_route :: "string \<Rightarrow> request \<Rightarrow> 'j response \<Rightarrow> 'j response option" where
  "get_route route rq answer =
     (if route_matches route (req_path rq)
      then (if is_get rq then Some answer
            else if req_method rq = OPTIONS then Some Allowed
            else None)
      else None)"

text \<open>
  The application \<open>app\<close> of unnamed/part_000 (port 8000): the static files at \<open>/\<close>, then
  \<open>GET /data/questions\<close> and \<open>GET /data/users_results\<close>. The result is the answer and the
  files after the request; no handler writes a file.
\<close>

definition app_part_000 :: "(string \<Rightarrow> 'j option) \<Rightarrow> disk \<Rightarrow> request \<Rightarrow> 'j response \<times> disk" where
  "app_part_000 parse d rq =
     (case serve_static d [] rq of
        Some answer \<Rightarrow> (answer, d)
      | None \<Rightarrow>
          (case get_route ''/data/questions'' rq
                  (send_file_json parse (questionsFile d) ''Failed to load questions'') of
             Some answer \<Rightarrow> (answer, d)
           | None \<Rightarrow>
               (case get_route ''/data/users_results'' rq
                       (send_file_json parse (resultsFile d) ''Failed to load results'') of
                  Some answer \<Rightarrow> (answer, d)
                | None \<Rightarrow> (NotFound, d))))"

text \<open>
  The application \<open>app\<close> of backend/server.js (port 3000): the static files at
  \<open>/sber_trajectory_bot\<close>, then \<open>GET /sber_trajectory_bot/api/questions\<close>.
\<close>

definition app_server_js :: "disk \<Rightarrow> request \<Rightarrow> 'j response \<times> disk" where
  "app_server_js d rq =
     (case serve_static d ''/sber_trajectory_bot'' rq of
        Some answer \<Rightarrow> (answer, d)
      | None \<Rightarrow>
          (case get_route ''/sber_trajectory_bot/api/questions'' rq QuestionsStub of
             Some answer \<Rightarrow> (answer, d)
           | None \<Rightarrow> (NotFound, d)))"

section \<open>Concrete inputs\<close>

definition question1 :: question where
  "question1 = \<lparr>qid = 1, qtext = ''Q1'', qoptions = [''A'', ''B'']\<rparr>"

definition question4 :: question where
  "question4 = \<lparr>qid = 4, qtext = ''Q4'', qoptions = [''A'', ''B'', ''C'']\<rparr>"

definition question7 :: question where
  "question7 = \<lparr>qid = 7, qtext = ''Q7'', qoptions = [''A'', ''B'']\<rparr>"

text \<open>A catalog with one question, and one with a question in each pool.\<close>

definition catalog1 :: catalog where
  "catalog1 = \<lparr>statistics = [question1], probability = [], ml = []\<rparr>"

definition catalog3 :: catalog where
  "catalog3 = \<lparr>statistics = [question1], probability = [question4], ml = [question7]\<rparr>"

text \<open>
  The page of a guest (the platform supplies no user) after \<open>init\<close>, the pre-check
  having failed: the welcome screen.
\<close>

definition welcome0 :: client where
  "welcome0 = init None (1 / 4) CheckFailed client0"

text \<open>A quiz of three questions just started from \<open>welcome0\<close>.\<close>

definition quiz3 :: client where
  "quiz3 = startQuiz_settled (Some catalog3) (\<lambda>_. 1 / 2) 1000 welcome0"

text \<open>
  Two clicks on the start button before the first answer arrives; both answers arrive,
  the second 200 ms after the first.
\<close>

definition double_start :: "event list" where
  "double_start =
     [ClickStart, ClickStart,
      QuestionsSettled (Some catalog1) (\<lambda>_. 0) 1000,
      QuestionsSettled (Some catalog1) (\<lambda>_. 0) 1200]"

text \<open>
  Two clicks on the start button; the first answer arrives, a second passes, the second
  answer arrives.
\<close>

definition slow_second_start :: "event list" where
  "slow_second_start =
     [ClickStart, ClickStart,
      QuestionsSettled (Some catalog1) (\<lambda>_. 0) 1000,
      TimerFires 1 2000 0,
      QuestionsSettled (Some catalog1) (\<lambda>_. 0) 2500]"

text \<open>
  The two intervals of \<open>double_start\<close> firing in turn, \<open>n\<close> times each: the first was
  set at 1000 ms, the second at 1200 ms, and each fires once a second.
\<close>

definition alternating_ticks :: "nat \<Rightarrow> event list" where
  "alternating_ticks n =
     concat (map (\<lambda>k. [TimerFires 1 (1000 + 1000 * int k) (1 / 2),
                        TimerFires 2 (1200 + 1000 * int k) (1 / 2)]) [1..<Suc n])"

text \<open>
  One start, the only question answered, and a second click on the same option before
  the \<open>/submit\<close> request is settled.
\<close>

definition double_answer :: "event list" where
  "double_answer =
     [ClickStart,
      QuestionsSettled (Some catalog1) (\<lambda>_. 0) 1000,
      ClickOption 0 5000 (1 / 2),
      ClickOption 0 5100 (3 / 4)]"

text \<open>
  One start, the interval firing 900 times, and a click on an option of the only
  question before the \<open>/submit\<close> request of the timeout is settled.
\<close>

definition timeout_then_answer :: "event list" where
  "timeout_then_answer =
     [ClickStart, QuestionsSettled (Some catalog1) (\<lambda>_. 0) 1000]
     @ map (\<lambda>k. TimerFires 1 (1000 + 1000 * int k) (1 / 2)) [1..<901]
     @ [ClickOption 0 901100 (3 / 4)]"

text \<open>
  Two clicks on the start button before the first answer arrives; the first request
  fails; and then the second succeeds.
\<close>

definition first_start_fails :: "event list" where
  "first_start_fails = [ClickStart, ClickStart, QuestionsSettled None (\<lambda>_. 0) 1000]"

definition second_start_succeeds :: "event list" where
  "second_start_succeeds =
     first_start_fails @ [QuestionsSettled (Some catalog1) (\<lambda>_. 0) 1200]"

text \<open>
  A disk with the directory \<open>frontend\<close>, one file in it and both data files, and the two
  requests of the client.
\<close>

definition disk1 :: disk where
  "disk1 =
     \<lparr>frontendFiles = [[] \<mapsto> DirEntry, ''/'' \<mapsto> DirEntry,
                       ''/app.js'' \<mapsto> FileEntry ''const tg''],
      questionsFile = Some ''{}'',
      resultsFile = Some ''[]''\<rparr>"

definition check_request :: request where
  "check_request = \<lparr>req_method = GET, req_path = ''/data/check-user/42'', req_body = []\<rparr>"

definition submit_request :: request where
  "submit_request =
     \<lparr>req_method = POST, req_path = ''/data/submit'', req_body = ''{telegram_user_id:42}''\<rparr>"

text \<open>The same two requests at the paths without the \<open>/data\<close> prefix.\<close>

definition spec_check_request :: request where
  "spec_check_request = \<lparr>req_method = GET, req_path = ''/check-user/42'', req_body = []\<rparr>"

definition spec_submit_request :: request where
  "spec_submit_request =
     \<lparr>req_method = POST, req_path = ''/submit'', req_body = ''{telegram_user_id:42}''\<rparr>"

section \<open>Properties\<close>

subsection \<open>The shuffle\<close>

lemma randomIndex_le:
  assumes "0 \<le> r" and "r < 1"
  shows "randomIndex r i \<le> i"
proof -
  have "r * real (i + 1) < real (i + 1)"
    using assms by (simp add: mult_less_cancel_right1)
  then have "\<lfloor>r * real (i + 1)\<rfloor> < int (i + 1)"
    by (simp add: floor_less_iff)
  then show ?thesis
    by (simp add: randomIndex_def)
qed

lemma length_swap: "length (swap xs i j) = length xs"
  by (simp add: swap_def)

lemma mset_swap_in_range:
  assumes "i < length xs" and "j < length xs"
  shows "mset (swap xs i j) = mset xs"
  unfolding swap_def using mset_swap [OF assms(2) assms(1)] .

lemma shuffle_loop_perm:
  assumes "\<forall>k. 0 \<le> rnd k \<and> rnd k < 1" and "i < length xs"
  shows "mset (shuffle_loop i rnd xs) = mset xs \<and> length (shuffle_loop i rnd xs) = length xs"
  using assms(2)
proof (induction i arbitrary: xs)
  case 0
  show ?case by simp
next
  case (Suc i)
  let ?j = "randomIndex (rnd (Suc i)) (Suc i)"
  have "?j \<le> Suc i"
    using assms(1) by (simp add: randomIndex_le)
  with Suc.prems have j: "?j < length xs"
    by simp
  have "i < length (swap xs (Suc i) ?j)"
    using Suc.prems by (simp add: length_swap)
  from Suc.IH [OF this] show ?case
    using Suc.prems j by (simp add: mset_swap_in_range length_swap)
qed

text \<open>
  Claim C5. For every input array and every outcome of the random draws (each a number
  in \<open>[0, 1)\<close>, as \<open>Math.random()\<close> returns), \<open>shuffleArray\<close> returns a permutation of its
  input: the same multiset of elements and the same length.
\<close>

theorem shuffleArray_permutation:
  assumes "\<forall>k. 0 \<le> rnd k \<and> rnd k < 1"
  shows "mset (shuffleArray array rnd) = mset array
         \<and> length (shuffleArray array rnd) = length array"
proof (cases array)
  case Nil
  then show ?thesis by (simp add: shuffleArray_def)
next
  case (Cons a as)
  then have "length array - 1 < length array" by simp
  from shuffle_loop_perm [OF assms this] show ?thesis
    by (simp add: shuffleArray_def)
qed

theorem shuffleArray_permutation_witness:
  "(\<forall>k::nat. (0::real) \<le> 1 / 2 \<and> (1 / 2 :: real) < 1)
   \<and> shuffleArray [1, 2, 3, 4 :: int] (\<lambda>_. 1 / 2) = [1, 4, 2, 3]
   \<and> mset (shuffleArray [1, 2, 3, 4 :: int] (\<lambda>_. 1 / 2)) = mset [1, 2, 3, 4]
   \<and> length (shuffleArray [1, 2, 3, 4 :: int] (\<lambda>_. 1 / 2)) = 4"
proof -
  have range: "\<forall>k::nat. (0::real) \<le> (\<lambda>_. 1 / 2) k \<and> (\<lambda>_. 1 / 2 :: real) k < 1"
    by simp
  have "shuffleArray [1, 2, 3, 4 :: int] (\<lambda>_. 1 / 2) = [1, 4, 2, 3]"
    by code_simp
  with shuffleArray_permutation [OF range, of "[1, 2, 3, 4 :: int]"] show ?thesis
    by simp
qed

subsection \<open>The topic label\<close>

text \<open>
  Claim C8. The topic label is a function of the question identifier alone: the
  identifiers 1, 2, 3 give the statistics label, 4, 5, 6 the probability label, every
  identifier from 7 on the machine-learning label; every identifier has exactly one label.
\<close>

theorem getTopicName_buckets:
  "(i \<in> {1, 2, 3} \<longrightarrow> getTopicName i = Statistics)
   \<and> (i \<in> {4, 5, 6} \<longrightarrow> getTopicName i = Probability)
   \<and> (7 \<le> i \<longrightarrow> getTopicName i = MachineLearning)
   \<and> (\<exists>!t. getTopicName i = t)"
  by (auto simp: getTopicName_def)

theorem getTopicName_buckets_witness:
  "getTopicName 2 = Statistics \<and> getTopicName 5 = Probability
   \<and> getTopicName 9 = MachineLearning"
  using getTopicName_buckets [of 2] getTopicName_buckets [of 5] getTopicName_buckets [of 9]
  by simp

subsection \<open>Selecting an answer\<close>

text \<open>
  Claim C4. In a state in progress (the index \<open>i\<close> is the index of a question), selecting
  an answer appends exactly one entry to the answers, so that their number grows by one,
  and moves the index to \<open>i + 1\<close>; the quiz is finished (one more \<open>/submit\<close> request, and
  only one) if and only if the new index is the number of questions.
\<close>

theorem selectAnswer_appends_and_advances:
  assumes "currentQuestionIndex s < length (allQuestions s)"
  shows "let s' = selectAnswer tg a now r s in
     userAnswers s' = userAnswers s @ [a]
   \<and> length (userAnswers s') = length (userAnswers s) + 1
   \<and> currentQuestionIndex s' = currentQuestionIndex s + 1
   \<and> allQuestions s' = allQuestions s
   \<and> (currentQuestionIndex s' = length (allQuestions s) \<longrightarrow>
        (\<exists>body. posted s' = posted s @ [body]))
   \<and> (currentQuestionIndex s' \<noteq> length (allQuestions s) \<longrightarrow> posted s' = posted s)"
  using assms
  by (auto simp: selectAnswer_def Let_def displayQuestion_def finishQuiz_def clearInterval_def
      split: option.splits)

theorem selectAnswer_appends_and_advances_witness:
  "currentQuestionIndex quiz3 < length (allQuestions quiz3)
   \<and> userAnswers (selectAnswer None 1 5000 (1 / 2) quiz3) = [1]
   \<and> currentQuestionIndex (selectAnswer None 1 5000 (1 / 2) quiz3) = 1
   \<and> posted (selectAnswer None 1 5000 (1 / 2) quiz3) = []"
proof -
  have e: "currentQuestionIndex quiz3 = 0 \<and> length (allQuestions quiz3) = 3
           \<and> userAnswers quiz3 = [] \<and> posted quiz3 = []"
    by code_simp
  then have h: "currentQuestionIndex quiz3 < length (allQuestions quiz3)"
    by simp
  from selectAnswer_appends_and_advances [OF h, of None 1 5000 "1 / 2"] e h show ?thesis
    by (simp add: Let_def)
qed

subsection \<open>The pre-check\<close>

lemma step_none_on_error_screen:
  assumes "activeScreen s = ErrorScreen" and "pendingStarts s = 0"
    and "liveTimers s = []" and "pendingFinishes s = []"
  shows "step tg e s = None"
  using assms by (cases e) (simp_all split: option.splits)

lemma run_on_error_screen:
  assumes "activeScreen s = ErrorScreen" and "pendingStarts s = 0"
    and "liveTimers s = []" and "pendingFinishes s = []"
    and "run tg evs s = Some s'"
  shows "evs = [] \<and> s' = s"
  using assms by (cases evs) (simp_all add: step_none_on_error_screen)

text \<open>
  Claim C6. When the pre-check answers \<open>completed: true\<close>, \<open>init\<close> ends on the error
  screen with the "already completed" message; it has requested no questions, and no
  event can follow (no click on the start button, no answer of a catalog request, no
  timer, no option), so that neither the welcome screen nor a quiz in progress is ever
  reached.
\<close>

theorem init_completed_routes_to_error:
  "activeScreen (init tg r (CheckData True) client0) = ErrorScreen
   \<and> errorMessage (init tg r (CheckData True) client0) = Some AlreadyCompletedMessage
   \<and> questionFetches (init tg r (CheckData True) client0) = 0
   \<and> pendingStarts (init tg r (CheckData True) client0) = 0
   \<and> liveTimers (init tg r (CheckData True) client0) = []
   \<and> shownQuestion (init tg r (CheckData True) client0) = None
   \<and> (\<forall>e. step tg e (init tg r (CheckData True) client0) = None)"
proof -
  let ?s = "init tg r (CheckData True) client0"
  have a: "activeScreen ?s = ErrorScreen" "pendingStarts ?s = 0" "liveTimers ?s = []"
    "pendingFinishes ?s = []"
    by (simp_all add: init_def client0_def showScreen_def Let_def)
  have b: "errorMessage ?s = Some AlreadyCompletedMessage" "questionFetches ?s = 0"
    "shownQuestion ?s = None"
    by (simp_all add: init_def client0_def showScreen_def Let_def)
  from a b step_none_on_error_screen [OF a] show ?thesis
    by simp
qed

theorem init_completed_routes_to_error_witness:
  "activeScreen (init None (1 / 4) (CheckData True) client0) = ErrorScreen
   \<and> errorMessage (init None (1 / 4) (CheckData True) client0) = Some AlreadyCompletedMessage
   \<and> questionFetches (init None (1 / 4) (CheckData True) client0) = 0
   \<and> step None ClickStart (init None (1 / 4) (CheckData True) client0) = None"
  using init_completed_routes_to_error [of None "1 / 4"] by simp

subsection \<open>A failed catalog request\<close>

text \<open>
  The continuation of a call of \<open>startQuiz\<close> whose request failed shows the error screen
  with the "could not load" message; it starts no timer and displays no question. When
  that call was the only one pending and no quiz was running, no event can follow.
\<close>

lemma startQuiz_rejected_effects:
  assumes "step tg (QuestionsSettled None rnd now) s = Some s'"
  shows "activeScreen s' = ErrorScreen
   \<and> errorMessage s' = Some CouldNotLoadMessage
   \<and> liveTimers s' = liveTimers s
   \<and> timerInterval s' = timerInterval s
   \<and> nextHandle s' = nextHandle s
   \<and> shownQuestion s' = shownQuestion s
   \<and> (pendingStarts s = 1 \<and> liveTimers s = [] \<and> pendingFinishes s = []
        \<longrightarrow> (\<forall>e. step tg e s' = None))"
proof -
  from assms have s': "s' = startQuiz_catch (s\<lparr>pendingStarts := pendingStarts s - 1\<rparr>)"
    by (simp add: startQuiz_settled_def split: if_splits)
  have imm: "activeScreen s' = ErrorScreen" "errorMessage s' = Some CouldNotLoadMessage"
    "liveTimers s' = liveTimers s" "timerInterval s' = timerInterval s"
    "nextHandle s' = nextHandle s" "shownQuestion s' = shownQuestion s"
    "pendingFinishes s' = pendingFinishes s" "pendingStarts s' = pendingStarts s - 1"
    by (simp_all add: s' startQuiz_catch_def showScreen_def)
  have "\<forall>e. step tg e s' = None"
    if "pendingStarts s = 1 \<and> liveTimers s = [] \<and> pendingFinishes s = []"
    using that imm by (simp add: step_none_on_error_screen)
  with imm show ?thesis
    by simp
qed

text \<open>
  Claim C7 says that when the request for the catalog fails, \<open>startQuiz\<close> shows the error
  screen with the "could not load" message and the quiz never gets in progress: no timer
  started, no question displayed. \<open>startQuiz\<close> does not look at whether another call of
  it is pending, and its error screen does not stop that call. With the start button
  clicked twice and the first request failing, the error screen is shown with the
  message, no timer runs and no question is displayed; the second request then
  succeeds, and the quiz screen is shown with a timer running and the question
  displayed, the message still in place.
\<close>

theorem failed_start_then_in_progress:
  "map_option (\<lambda>s. (activeScreen s, errorMessage s, liveTimers s, shownQuestion s,
                     pendingStarts s))
     (run None first_start_fails welcome0)
     = Some (ErrorScreen, Some CouldNotLoadMessage, [], None, 1)
   \<and> map_option (\<lambda>s. (activeScreen s, errorMessage s, liveTimers s, shownQuestion s,
                       currentQuestionIndex s, timeRemaining s))
     (run None second_start_succeeds welcome0)
     = Some (QuizScreen, Some CouldNotLoadMessage, [1], Some question1, 0, 900)"
proof -
  have one: "map_option (\<lambda>s. (activeScreen s, errorMessage s, liveTimers s, shownQuestion s,
                               pendingStarts s))
     (run None first_start_fails welcome0)
     = Some (ErrorScreen, Some CouldNotLoadMessage, [], None, 1)"
    by code_simp
  have two: "map_option (\<lambda>s. (activeScreen s, errorMessage s, liveTimers s, shownQuestion s,
                               currentQuestionIndex s, timeRemaining s))
     (run None second_start_succeeds welcome0)
     = Some (QuizScreen, Some CouldNotLoadMessage, [1], Some question1, 0, 900)"
    by code_simp
  from one two show ?thesis
    by (intro conjI)
qed

subsection \<open>The guest identifier\<close>

text \<open>
  Claim C10. When the platform supplies no user identifier, \<open>init\<close> and \<open>finishQuiz\<close>
  each build the guest identifier from a random draw of their own: the identifier of the
  pre-check is the draw of \<open>init\<close>, the identifier of the submitted record is the draw
  of \<open>finishQuiz\<close>, and the two differ exactly when the draws differ. So the identifier
  of the pre-check is not a function of the state (two draws give two identifiers in the
  same state), and for some draws it is not the identifier that is submitted.
\<close>

theorem guest_identifier_redrawn:
  assumes "tg = None \<or> (\<exists>u. tg = Some u \<and> tg_id u = 0)"
  shows "userChecks (init tg r1 response s) = userChecks s @ [GuestId r1]
   \<and> posted (finishQuiz tg now r2 s') =
       posted s' @ [\<lparr>telegram_user_id = GuestId r2, username = getUsername tg,
                     answers = userAnswers s',
                     time_spent = (now - (case startTime s' of None \<Rightarrow> 0 | Some t \<Rightarrow> t)) div 1000,
                     questions = map qid (allQuestions s')\<rparr>]
   \<and> (last (userChecks (init tg r1 response s))
        \<noteq> telegram_user_id (last (posted (finishQuiz tg now r2 s')))) = (r1 \<noteq> r2)
   \<and> (\<exists>ra rb. 0 \<le> ra \<and> ra < 1 \<and> 0 \<le> rb \<and> rb < 1
        \<and> last (userChecks (init tg ra response s))
            \<noteq> last (userChecks (init tg rb response s)))
   \<and> (\<exists>ra rb. 0 \<le> ra \<and> ra < 1 \<and> 0 \<le> rb \<and> rb < 1
        \<and> last (userChecks (init tg ra response s))
            \<noteq> telegram_user_id (last (posted (finishQuiz tg now rb s'))))"
proof -
  from assms have g: "getUserId tg r = GuestId r" for r
    by (auto simp: getUserId_def)
  have c: "userChecks (init tg r response s) = userChecks s @ [GuestId r]" for r
    by (simp add: init_def Let_def g showScreen_def split: check_response.splits bool.splits)
  have p: "posted (finishQuiz tg now r s') =
       posted s' @ [\<lparr>telegram_user_id = GuestId r, username = getUsername tg,
                     answers = userAnswers s',
                     time_spent = (now - (case startTime s' of None \<Rightarrow> 0 | Some t \<Rightarrow> t)) div 1000,
                     questions = map qid (allQuestions s')\<rparr>]" for r
    by (simp add: finishQuiz_def Let_def g clearInterval_def split: option.splits)
  have d: "(last (userChecks (init tg ra response s))
        \<noteq> telegram_user_id (last (posted (finishQuiz tg now rb s')))) = (ra \<noteq> rb)" for ra rb
    by (simp add: c p)
  have e1: "\<exists>ra rb::real. 0 \<le> ra \<and> ra < 1 \<and> 0 \<le> rb \<and> rb < 1
        \<and> last (userChecks (init tg ra response s))
            \<noteq> last (userChecks (init tg rb response s))"
    by (rule exI [of _ 0], rule exI [of _ "1 / 2"]) (simp add: c)
  have e2: "\<exists>ra rb::real. 0 \<le> ra \<and> ra < 1 \<and> 0 \<le> rb \<and> rb < 1
        \<and> last (userChecks (init tg ra response s))
            \<noteq> telegram_user_id (last (posted (finishQuiz tg now rb s')))"
    by (rule exI [of _ 0], rule exI [of _ "1 / 2"]) (simp add: d)
  from c p d e1 e2 show ?thesis
    by blast
qed

theorem guest_identifier_redrawn_witness:
  "userChecks (init None (1 / 4) CheckFailed client0) = [GuestId (1 / 4)]
   \<and> map telegram_user_id (posted (finishQuiz None 5000 (3 / 4) quiz3)) = [GuestId (3 / 4)]
   \<and> last (userChecks (init None (1 / 4) CheckFailed client0))
        \<noteq> telegram_user_id (last (posted (finishQuiz None 5000 (3 / 4) quiz3)))"
proof -
  have h: "None = None \<or> (\<exists>u. (None :: tg_user option) = Some u \<and> tg_id u = 0)"
    by simp
  have e: "userChecks client0 = [] \<and> posted quiz3 = []"
    by code_simp
  from guest_identifier_redrawn [OF h, of "1 / 4" CheckFailed client0 5000 "3 / 4" quiz3] e
  show ?thesis
    by simp
qed

subsection \<open>Starting the quiz\<close>

text \<open>
  What a successful start assigns: the index and the answers. The countdown is not
  assigned; it keeps the value it has.
\<close>

lemma startQuiz_settled_resets:
  "currentQuestionIndex (startQuiz_settled (Some c) rnd now s) = 0
   \<and> userAnswers (startQuiz_settled (Some c) rnd now s) = []
   \<and> timeRemaining (startQuiz_settled (Some c) rnd now s) = timeRemaining s"
  by (simp add: startQuiz_settled_def Let_def startTimer_def showScreen_def displayQuestion_def
      startQuiz_catch_def)

text \<open>The first start after \<open>init\<close> finds the countdown at its initial 900 seconds.\<close>

lemma first_start_countdown:
  "run tg [ClickStart, QuestionsSettled (Some c) rnd now] (init tg r CheckFailed client0) = Some s
   \<Longrightarrow> currentQuestionIndex s = 0 \<and> userAnswers s = [] \<and> timeRemaining s = 900"
  by (auto simp: startQuiz_settled_resets init_def showScreen_def startQuiz_request_def
      client0_def QUIZ_TIME_def Let_def split: if_splits)

text \<open>
  Claim C2 says that every successful start enters the quiz with index 0, no answers and
  a countdown of 900 seconds. \<open>startQuiz\<close> assigns the index and the answers but not the
  countdown. With the start button clicked twice, the first answer arriving, a second
  passing and the second answer arriving, the second start enters the quiz with index 0
  and no answers, a second interval running beside the first, and a countdown of 899.
\<close>

theorem second_start_keeps_countdown:
  "map_option (\<lambda>s. (activeScreen s, currentQuestionIndex s, userAnswers s, liveTimers s,
                     timeRemaining s))
     (run None slow_second_start welcome0)
   = Some (QuizScreen, 0, [], [1, 2], 899)"
  by code_simp

subsection \<open>The countdown reaching zero\<close>

text \<open>
  With one interval running, the one \<open>timerInterval\<close> holds, the tick that brings the
  countdown to zero sends one \<open>/submit\<close> request and leaves no interval running.
\<close>

lemma tick_at_zero_single_timer:
  assumes "timeRemaining s = 1" and "liveTimers s = [h]" and "timerInterval s = Some h"
  shows "liveTimers (tick tg now r s) = []
   \<and> length (posted (tick tg now r s)) = length (posted s) + 1
   \<and> (\<forall>k now' r'. step tg (TimerFires k now' r') (tick tg now r s) = None)"
  using assms by (simp add: tick_def finishQuiz_def clearInterval_def Let_def)

text \<open>
  Claim C3 says that the countdown reaching zero finishes the quiz exactly once and
  cancels the timer, so that no further tick and no second completion can occur.
  \<open>startTimer\<close> overwrites \<open>timerInterval\<close> without clearing the interval it held, and
  \<open>clearInterval(timerInterval)\<close> cancels the last interval only. After two clicks on the
  start button two intervals run; after 450 seconds the countdown is at zero, the quiz
  is finished once and the first interval is still running; its next tick takes the
  countdown to -1 and finishes the quiz a second time, with no answer selected.
  With a single start as well: the quiz screen stays active until the \<open>/submit\<close> request
  is settled, and a click on an option of the last question in between finishes the quiz
  a second time.
\<close>

theorem countdown_zero_finishes_twice:
  "map_option (\<lambda>s. (length (posted s), map time_spent (posted s), liveTimers s, timeRemaining s))
     (run None (double_start @ alternating_ticks 450) welcome0)
     = Some (1, [450], [1], 0)
   \<and> map_option (\<lambda>s. (length (posted s), liveTimers s, timeRemaining s))
     (run None (double_start @ alternating_ticks 450 @ [TimerFires 1 452000 (1 / 2)]) welcome0)
     = Some (2, [1], - 1)
   \<and> map_option (\<lambda>s. (length (posted s), map answers (posted s), liveTimers s))
     (run None timeout_then_answer welcome0) = Some (2, [[], [0]], [])"
proof -
  have one: "map_option (\<lambda>s. (length (posted s), map time_spent (posted s), liveTimers s,
                               timeRemaining s))
     (run None (double_start @ alternating_ticks 450) welcome0)
     = Some (1, [450], [1], 0)"
    by code_simp
  have two: "map_option (\<lambda>s. (length (posted s), liveTimers s, timeRemaining s))
     (run None (double_start @ alternating_ticks 450 @ [TimerFires 1 452000 (1 / 2)]) welcome0)
     = Some (2, [1], - 1)"
    by code_simp
  have three: "map_option (\<lambda>s. (length (posted s), map answers (posted s), liveTimers s))
     (run None timeout_then_answer welcome0) = Some (2, [[], [0]], [])"
    by code_simp
  from one two three show ?thesis
    by (intro conjI)
qed

subsection \<open>Answers and questions\<close>

text \<open>
  A successful start makes the number of answers equal to the index, both 0; an answer
  selected while the index is the index of a question keeps them equal and at most the
  number of questions.
\<close>

lemma startQuiz_settled_invariant:
  "length (userAnswers (startQuiz_settled (Some c) rnd now s))
     = currentQuestionIndex (startQuiz_settled (Some c) rnd now s)
   \<and> currentQuestionIndex (startQuiz_settled (Some c) rnd now s)
     \<le> length (allQuestions (startQuiz_settled (Some c) rnd now s))"
  by (simp add: startQuiz_settled_resets)

lemma selectAnswer_invariant:
  assumes "length (userAnswers s) = currentQuestionIndex s"
    and "currentQuestionIndex s < length (allQuestions s)"
  shows "length (userAnswers (selectAnswer tg a now r s))
           = currentQuestionIndex (selectAnswer tg a now r s)
   \<and> currentQuestionIndex (selectAnswer tg a now r s)
       \<le> length (allQuestions (selectAnswer tg a now r s))"
  using assms
  by (auto simp: selectAnswer_def Let_def displayQuestion_def finishQuiz_def clearInterval_def
      split: option.splits)

text \<open>
  Claim C9 says that after every \<open>selectAnswer\<close> the number of answers is the index and
  both are at most the number of questions, so that no submitted record has more answers
  than questions. \<open>selectAnswer\<close> does not look at whether the quiz is finished, and the
  option buttons stay on the active screen until the \<open>/submit\<close> request is settled. With
  one question, answered by two clicks on its first option, the index and the number of
  answers are 2, and the second record submitted has the answers \<open>[0, 0]\<close> for the one
  question \<open>[1]\<close>.
\<close>

theorem double_answer_overruns:
  "map_option (\<lambda>s. (currentQuestionIndex s, length (userAnswers s), length (allQuestions s),
                     map answers (posted s), map questions (posted s)))
     (run None double_answer welcome0)
   = Some (2, 2, 1, [[0], [0, 0]], [[1], [1]])"
  by code_simp

subsection \<open>The servers\<close>

text \<open>
  No request changes the files. Only GET, HEAD and OPTIONS requests get an answer: a
  static file or a redirection, or the answer of one of the two data routes. No POST
  request is served, and no path below \<open>/data/check-user/\<close> is routed.
\<close>

lemma app_part_000_keeps_disk: "snd (app_part_000 parse d rq) = d"
  by (simp add: app_part_000_def split: option.splits)

lemma app_part_000_answers:
  "fst (app_part_000 (parse :: string \<Rightarrow> 'j option) d rq) \<noteq> NotFound \<Longrightarrow>
     (is_get rq \<or> req_method rq = OPTIONS)
     \<and> ((\<exists>answer::'j response. serve_static d [] rq = Some answer)
        \<or> route_matches ''/data/questions'' (req_path rq)
        \<or> route_matches ''/data/users_results'' (req_path rq))"
proof -
  assume answered: "fst (app_part_000 (parse :: string \<Rightarrow> 'j option) d rq) \<noteq> NotFound"
  show ?thesis
  proof (cases "serve_static d [] rq :: 'j response option")
    case (Some answer)
    then have "is_get rq"
      by (simp add: serve_static_def split: if_splits)
    with Some show ?thesis
      by simp
  next
    case None
    with answered show ?thesis
      by (auto simp: app_part_000_def get_route_def split: option.splits if_splits)
  qed
qed

lemma app_part_000_no_post:
  "req_method rq = POST \<Longrightarrow> app_part_000 parse d rq = (NotFound, d)"
  by (simp add: app_part_000_def serve_static_def get_route_def is_get_def)

lemma app_server_js_no_post:
  "req_method rq = POST \<Longrightarrow> app_server_js d rq = (NotFound, d)"
  by (simp add: app_server_js_def serve_static_def get_route_def is_get_def)

lemma app_part_000_no_check_user:
  assumes "frontendFiles d (''/data/check-user/'' @ userId) = None"
  shows "app_part_000 parse d
           \<lparr>req_method = GET, req_path = ''/data/check-user/'' @ userId, req_body = body\<rparr>
         = (NotFound, d)"
  using assms
  by (simp add: app_part_000_def serve_static_def mounted_path_def get_route_def is_get_def
      route_matches_def lower_char_def)

text \<open>What the server does with the results file: it sends the whole of it.\<close>

lemma app_part_000_serves_results:
  "app_part_000 Some disk1
     \<lparr>req_method = GET, req_path = ''/data/users_results'', req_body = []\<rparr>
   = (Json ''[]'', disk1)"
  by (simp add: app_part_000_def serve_static_def mounted_path_def disk1_def get_route_def
      is_get_def route_matches_def lower_char_def send_file_json_def)

text \<open>OPTIONS at the path of a route, and a directory asked for without its slash.\<close>

lemma app_part_000_options:
  "app_part_000 Some disk1
     \<lparr>req_method = OPTIONS, req_path = ''/data/questions'', req_body = []\<rparr>
   = (Allowed, disk1)"
  by (simp add: app_part_000_def serve_static_def mounted_path_def disk1_def get_route_def
      is_get_def route_matches_def lower_char_def)

lemma app_server_js_redirects_mount:
  "(app_server_js disk1
      \<lparr>req_method = GET, req_path = ''/sber_trajectory_bot'', req_body = []\<rparr>
    :: string response \<times> disk)
   = (Redirect ''/sber_trajectory_bot/'', disk1)"
  by (simp add: app_server_js_def serve_static_def mounted_path_def disk1_def get_route_def
      is_get_def route_matches_def lower_char_def)

lemma app_server_js_serves_file:
  "(app_server_js disk1
      \<lparr>req_method = GET, req_path = ''/sber_trajectory_bot/app.js'', req_body = []\<rparr>
    :: string response \<times> disk)
   = (StaticFile ''const tg'', disk1)"
  by (simp add: app_server_js_def serve_static_def mounted_path_def disk1_def get_route_def
      is_get_def route_matches_def lower_char_def)

text \<open>
  Claim C1 says that the server has a lookup endpoint \<open>GET /check-user/{userId}\<close>
  answering \<open>{ completed: boolean }\<close> and a submit endpoint \<open>POST /submit\<close> appending
  the record. The client sends both below its \<open>API_URL\<close>, \<open>http://localhost:8000/data\<close>.
  Neither server has a route for either, with the prefix or without: the requests get
  the 404 answer, and the files are as before.
\<close>

theorem servers_lack_check_user_and_submit:
  "app_part_000 Some disk1 check_request = (NotFound, disk1)
   \<and> app_part_000 Some disk1 submit_request = (NotFound, disk1)
   \<and> app_part_000 Some disk1 spec_check_request = (NotFound, disk1)
   \<and> app_part_000 Some disk1 spec_submit_request = (NotFound, disk1)
   \<and> (app_server_js disk1 check_request :: string response \<times> disk) = (NotFound, disk1)
   \<and> (app_server_js disk1 submit_request :: string response \<times> disk) = (NotFound, disk1)"
  by (simp add: app_part_000_def app_server_js_def serve_static_def mounted_path_def disk1_def
      check_request_def submit_request_def spec_check_request_def spec_submit_request_def
      get_route_def is_get_def route_matches_def lower_char_def)

end
